theory Spec2Isabelle
  imports Complex_Main "HOL-Library.AList" "HOL-Library.Sublist"
begin

section \<open>Python values and exceptions\<close>

text \<open>
  The program is Python. Exceptions are values of type \<open>exn\<close>; a computation that may
  raise returns \<open>exn + 'a\<close> with \<open>Inl\<close> for the exception. Floats are modelled as
  reals (no rounding error, no NaN, no infinities); dictionaries with string keys as
  association lists.
\<close>

datatype exn =
    KeyError
  | TypeError
  | AttributeError
  | IndexError
  | ValueError
  | ZeroDivisionError
  | FileNotFoundError
  | BadZipFile
  | ValidationError
  | OSError
  | Empty
  | Exception string

datatype pyval =
    PNone
  | PBool bool
  | PInt int
  | PFloat real
  | PStr string
  | PList "pyval list"
  | PTuple "pyval list"
  | PDict "(string \<times> pyval) list"
  | PImage "nat list" "nat list"

text \<open>\<open>PImage shape pixels\<close> stands for a numpy array (a video frame).\<close>

text \<open>The numeric value of a bool, int or float; \<open>None\<close> for every other value.\<close>

fun num_of :: "pyval \<Rightarrow> real option" where
  "num_of (PBool b) = Some (if b then 1 else 0)"
| "num_of (PInt i) = Some (of_int i)"
| "num_of (PFloat x) = Some x"
| "num_of _ = None"

text \<open>
  Python's \<open>==\<close>: numbers (bools included) compare by value across types, a number
  never equals a non-number, and other values are compared structurally.
\<close>

definition py_eq :: "pyval \<Rightarrow> pyval \<Rightarrow> bool" where
  "py_eq a b =
     (case (num_of a, num_of b) of
        (Some x, Some y) \<Rightarrow> x = y
      | (None, None) \<Rightarrow> a = b
      | _ \<Rightarrow> False)"

text \<open>\<open>v[key]\<close> with a string key: only a dict can be subscripted that way.\<close>

fun subscript :: "pyval \<Rightarrow> string \<Rightarrow> exn + pyval" where
  "subscript (PDict d) k = (case map_of d k of None \<Rightarrow> Inl KeyError | Some v \<Rightarrow> Inr v)"
| "subscript _ k = Inl TypeError"


section \<open>Joinable queues\<close>

text \<open>
  A \<open>multiprocessing.JoinableQueue\<close>: the items waiting in it and the count of
  unfinished tasks. \<open>put\<close> appends and counts one more task; \<open>get\<close> takes the oldest item,
  and with the default arguments (\<open>block=True, timeout=None\<close>) waits without limit when
  the queue is empty; \<open>task_done\<close> counts one task less and raises \<open>ValueError\<close>
  when no task is unfinished.
\<close>

record 'a jqueue =
  items :: "'a list"
  unfinished :: nat

definition new_queue :: "'a jqueue" where
  "new_queue = \<lparr>items = [], unfinished = 0\<rparr>"

definition put :: "'a \<Rightarrow> 'a jqueue \<Rightarrow> 'a jqueue" where
  "put x q = q\<lparr>items := items q @ [x], unfinished := Suc (unfinished q)\<rparr>"

datatype 'a got = Got 'a "'a jqueue" | Waiting | Raised exn

definition get :: "bool \<Rightarrow> real option \<Rightarrow> 'a jqueue \<Rightarrow> 'a got" where
  "get block timeout q =
     (case items q of
        x # xs \<Rightarrow> Got x (q\<lparr>items := xs\<rparr>)
      | [] \<Rightarrow> if block \<and> timeout = None then Waiting else Raised Empty)"

definition task_done :: "'a jqueue \<Rightarrow> exn + 'a jqueue" where
  "task_done q =
     (if unfinished q = 0 then Inl ValueError
      else Inr (q\<lparr>unfinished := unfinished q - 1\<rparr>))"

text \<open>Every item waiting in a queue was put there and is an unfinished task.\<close>

definition queue_ok :: "'a jqueue \<Rightarrow> bool" where
  "queue_ok q = (length (items q) \<le> unfinished q)"

section \<open>The web server (ETS2LA/networking/webserver.py)\<close>

text \<open>
  A route is a method and a path pattern, the path cut at \<open>/\<close> into segments; a
  parameter \<open>{name}\<close> matches one segment that is not empty and has no \<open>/\<close> in it.
  The framework tries the routes in the order in which the decorators registered them and
  takes the first whose pattern and method match; a path that only routes of another
  method match gives 405, a path no route matches 404.
\<close>

datatype http_method = GET | POST

datatype segment = Lit string | Param string

fun match_path :: "segment list \<Rightarrow> string list \<Rightarrow> (string \<times> string) list option" where
  "match_path [] [] = Some []"
| "match_path (Lit s # ps) (x # xs) = (if s = x then match_path ps xs else None)"
| "match_path (Param name # ps) (x # xs) =
     (if x \<noteq> [] \<and> CHR ''/'' \<notin> set x
      then map_option ((#) (name, x)) (match_path ps xs)
      else None)"
| "match_path _ _ = None"

datatype endpoint =
    E_read_root | E_get_frametimes | E_quitApp | E_restartApp | E_get_plugins
  | E_enable_plugin | E_disable_plugin | E_set_plugin_setting | E_set_plugin_settings
  | E_get_plugin_setting | E_get_plugin_settings | E_change_control | E_get_git_history
  | E_call_plugin_function | E_get_IP

definition routes :: "(http_method \<times> segment list \<times> endpoint) list" where
  "routes =
     [(GET, [], E_read_root),
      (GET, [Lit ''api'', Lit ''frametimes''], E_get_frametimes),
      (GET, [Lit ''api'', Lit ''quit''], E_quitApp),
      (GET, [Lit ''api'', Lit ''restart''], E_restartApp),
      (GET, [Lit ''api'', Lit ''plugins''], E_get_plugins),
      (GET, [Lit ''api'', Lit ''plugins'', Param ''plugin'', Lit ''enable''], E_enable_plugin),
      (GET, [Lit ''api'', Lit ''plugins'', Param ''plugin'', Lit ''disable''], E_disable_plugin),
      (POST, [Lit ''api'', Lit ''plugins'', Param ''plugin'', Lit ''settings'', Param ''key'',
              Lit ''set''], E_set_plugin_setting),
      (POST, [Lit ''api'', Lit ''plugins'', Param ''plugin'', Lit ''settings'', Lit ''set''],
         E_set_plugin_settings),
      (GET, [Lit ''api'', Lit ''plugins'', Param ''plugin'', Lit ''settings'', Param ''key''],
         E_get_plugin_setting),
      (GET, [Lit ''api'', Lit ''plugins'', Param ''plugin'', Lit ''settings''],
         E_get_plugin_settings),
      (POST, [Lit ''api'', Lit ''controls'', Param ''control'', Lit ''change''],
         E_change_control),
      (GET, [Lit ''api'', Lit ''git'', Lit ''history''], E_get_git_history),
      (POST, [Lit ''api'', Lit ''plugins'', Param ''plugin'', Lit ''call'', Param ''function''],
         E_call_plugin_function),
      (GET, [Lit ''api'', Lit ''server'', Lit ''ip''], E_get_IP)]"

datatype routed = Found endpoint "(string \<times> string) list" | MethodNotAllowed | NotFound

fun route_in ::
  "(http_method \<times> segment list \<times> endpoint) list \<Rightarrow> bool \<Rightarrow> http_method \<Rightarrow> string list
     \<Rightarrow> routed" where
  "route_in [] partial m path = (if partial then MethodNotAllowed else NotFound)"
| "route_in ((m', pattern, e) # rs) partial m path =
     (case match_path pattern path of
        None \<Rightarrow> route_in rs partial m path
      | Some params \<Rightarrow> if m' = m then Found e params else route_in rs True m path)"

definition route :: "http_method \<Rightarrow> string list \<Rightarrow> routed" where
  "route m path = route_in routes False m path"

text \<open>
  The modules \<open>ETS2LA.backend.backend\<close> and \<open>ETS2LA.backend.settings\<close> are not part
  of the sources at hand. A call into them is a value of \<open>backend_call\<close>, and \<open>backend\<close>,
  a parameter of the handlers, says what the call returns or raises and how it changes
  the backend's state \<open>'b\<close>.
\<close>

datatype backend_call =
    AddPluginRunner string
  | RemovePluginRunner string
  | CallPluginFunction string string pyval pyval
  | settings_Set string pyval pyval
  | settings_Get string string
  | settings_GetJSON string

text \<open>
  The state the handlers work on: the flags \<open>CLOSE\<close> and \<open>RESTART\<close> of the module
  \<open>ETS2LA.variables\<close>, what was printed, and the backend's state.
\<close>

record 'b server =
  CLOSE :: bool
  RESTART :: bool
  printed :: "string list"
  backend_state :: 'b

datatype response = Ok pyval | Error500 exn | Error422 | Error405 | Error404

text \<open>A handler that returns what a backend call returns.\<close>

definition respond ::
  "(backend_call \<Rightarrow> 'b \<Rightarrow> (exn + pyval) \<times> 'b) \<Rightarrow> backend_call \<Rightarrow> 'b server
     \<Rightarrow> response \<times> 'b server" where
  "respond backend call st =
     (case backend call (backend_state st) of
        (Inl e, b) \<Rightarrow> (Error500 e, st\<lparr>backend_state := b\<rparr>)
      | (Inr v, b) \<Rightarrow> (Ok v, st\<lparr>backend_state := b\<rparr>))"

definition quitApp :: "'b server \<Rightarrow> response \<times> 'b server" where
  "quitApp st = (Ok (PDict [(''status'', PStr ''ok'')]), st\<lparr>CLOSE := True\<rparr>)"

definition restartApp :: "'b server \<Rightarrow> response \<times> 'b server" where
  "restartApp st = (Ok (PDict [(''status'', PStr ''ok'')]), st\<lparr>RESTART := True\<rparr>)"

definition enable_plugin ::
  "(backend_call \<Rightarrow> 'b \<Rightarrow> (exn + pyval) \<times> 'b) \<Rightarrow> string \<Rightarrow> 'b server
     \<Rightarrow> response \<times> 'b server" where
  "enable_plugin backend plugin st = respond backend (AddPluginRunner plugin) st"

definition disable_plugin ::
  "(backend_call \<Rightarrow> 'b \<Rightarrow> (exn + pyval) \<times> 'b) \<Rightarrow> string \<Rightarrow> 'b server
     \<Rightarrow> response \<times> 'b server" where
  "disable_plugin backend plugin st = respond backend (RemovePluginRunner plugin) st"

text \<open>
  \<open>value: Any = Body(...)\<close>: the request must have a body, of any JSON type; the handler
  reads \<open>value["value"]\<close>.
\<close>

definition set_plugin_setting ::
  "(backend_call \<Rightarrow> 'b \<Rightarrow> (exn + pyval) \<times> 'b) \<Rightarrow> string \<Rightarrow> string \<Rightarrow> pyval option
     \<Rightarrow> 'b server \<Rightarrow> response \<times> 'b server" where
  "set_plugin_setting backend plugin key body st =
     (case body of
        None \<Rightarrow> (Error422, st)
      | Some v \<Rightarrow>
          (case subscript v ''value'' of
             Inl e \<Rightarrow> (Error500 e, st)
           | Inr x \<Rightarrow> respond backend (settings_Set plugin (PStr key) x) st))"

text \<open>\<open>data: dict = Body(...)\<close>: the body must be a JSON object.\<close>

definition set_plugin_settings ::
  "(backend_call \<Rightarrow> 'b \<Rightarrow> (exn + pyval) \<times> 'b) \<Rightarrow> string \<Rightarrow> pyval option
     \<Rightarrow> 'b server \<Rightarrow> response \<times> 'b server" where
  "set_plugin_settings backend plugin body st =
     (case body of
        Some (PDict d) \<Rightarrow>
          (case subscript (PDict d) ''keys'' of
             Inl e \<Rightarrow> (Error500 e, st)
           | Inr keys \<Rightarrow>
               (case subscript (PDict d) ''setting'' of
                  Inl e \<Rightarrow> (Error500 e, st)
                | Inr setting \<Rightarrow> respond backend (settings_Set plugin keys setting) st))
      | _ \<Rightarrow> (Error422, st))"

definition get_plugin_setting ::
  "(backend_call \<Rightarrow> 'b \<Rightarrow> (exn + pyval) \<times> 'b) \<Rightarrow> string \<Rightarrow> string \<Rightarrow> 'b server
     \<Rightarrow> response \<times> 'b server" where
  "get_plugin_setting backend plugin key st = respond backend (settings_Get plugin key) st"

definition get_plugin_settings ::
  "(backend_call \<Rightarrow> 'b \<Rightarrow> (exn + pyval) \<times> 'b) \<Rightarrow> string \<Rightarrow> 'b server
     \<Rightarrow> response \<times> 'b server" where
  "get_plugin_settings backend plugin st =
     respond backend (settings_GetJSON plugin) (st\<lparr>printed := printed st @ [plugin]\<rparr>)"

text \<open>
  \<open>call_plugin_function\<close>. The body is optional and, when there, must be an object with
  a list \<open>args\<close> and a dict \<open>kwargs\<close>. With no body the handler builds
  \<open>PluginCallData()\<close>, which raises because both fields are required. A result that
  equals \<open>False\<close> or \<open>None\<close> is turned into an exception.
\<close>

definition call_plugin_function ::
  "(backend_call \<Rightarrow> 'b \<Rightarrow> (exn + pyval) \<times> 'b) \<Rightarrow> string \<Rightarrow> string \<Rightarrow> pyval option
     \<Rightarrow> 'b server \<Rightarrow> response \<times> 'b server" where
  "call_plugin_function backend plugin function body st =
     (case body of
        None \<Rightarrow> (Error500 ValidationError, st)
      | Some data \<Rightarrow>
          (case (subscript data ''args'', subscript data ''kwargs'') of
             (Inr (PList args), Inr (PDict kwargs)) \<Rightarrow>
               (case backend (CallPluginFunction plugin function (PList args) (PDict kwargs))
                       (backend_state st) of
                  (Inl e, b) \<Rightarrow> (Error500 e, st\<lparr>backend_state := b\<rparr>)
                | (Inr returnData, b) \<Rightarrow>
                    if py_eq returnData (PBool False) \<or> py_eq returnData PNone
                    then (Error500 (Exception ''Plugin function failed''),
                          st\<lparr>backend_state := b\<rparr>)
                    else (Ok returnData, st\<lparr>backend_state := b\<rparr>))
           | _ \<Rightarrow> (Error422, st)))"

text \<open>
  A request served: routed, then handled. The parameters are looked up by name in what
  the pattern matched. The handlers of the other endpoints are not needed below; a request
  for one of them has no result here.
\<close>

definition param :: "(string \<times> string) list \<Rightarrow> string \<Rightarrow> string" where
  "param ps name = (case map_of ps name of Some v \<Rightarrow> v | None \<Rightarrow> [])"

definition serve ::
  "(backend_call \<Rightarrow> 'b \<Rightarrow> (exn + pyval) \<times> 'b) \<Rightarrow> http_method \<Rightarrow> string list \<Rightarrow> pyval option
     \<Rightarrow> 'b server \<Rightarrow> (response \<times> 'b server) option" where
  "serve backend m path body st =
     (case route m path of
        NotFound \<Rightarrow> Some (Error404, st)
      | MethodNotAllowed \<Rightarrow> Some (Error405, st)
      | Found e ps \<Rightarrow>
          (case e of
             E_quitApp \<Rightarrow> Some (quitApp st)
           | E_restartApp \<Rightarrow> Some (restartApp st)
           | E_enable_plugin \<Rightarrow> Some (enable_plugin backend (param ps ''plugin'') st)
           | E_disable_plugin \<Rightarrow> Some (disable_plugin backend (param ps ''plugin'') st)
           | E_set_plugin_setting \<Rightarrow>
               Some (set_plugin_setting backend (param ps ''plugin'') (param ps ''key'') body st)
           | E_set_plugin_settings \<Rightarrow>
               Some (set_plugin_settings backend (param ps ''plugin'') body st)
           | E_get_plugin_setting \<Rightarrow>
               Some (get_plugin_setting backend (param ps ''plugin'') (param ps ''key'') st)
           | E_get_plugin_settings \<Rightarrow>
               Some (get_plugin_settings backend (param ps ''plugin'') st)
           | E_call_plugin_function \<Rightarrow>
               Some (call_plugin_function backend (param ps ''plugin'') (param ps ''function'')
                       body st)
           | _ \<Rightarrow> None))"

text \<open>A path segment that a parameter matches.\<close>

definition is_segment :: "string \<Rightarrow> bool" where
  "is_segment x = (x \<noteq> [] \<and> CHR ''/'' \<notin> set x)"

text \<open>A backend to run the handlers on: it counts the calls and answers with the count.\<close>

definition backend0 :: "backend_call \<Rightarrow> nat \<Rightarrow> (exn + pyval) \<times> nat" where
  "backend0 call b = (Inr (PInt (int b + 1)), b + 1)"

definition server0 :: "nat server" where
  "server0 = \<lparr>CLOSE = False, RESTART = False, printed = [], backend_state = 0\<rparr>"

section \<open>The plugin worker (ETS2LA/Plugin/plugin.py)\<close>

subsection \<open>The constructor\<close>

text \<open>
  \<open>__new__\<close> sets attributes on the new instance. The instance is the list of its
  attributes, as its \<open>__dict__\<close>; \<open>'q\<close> is the type of queue handles. The attributes
  \<open>plugins\<close>, \<open>globals\<close> and \<open>state\<close> are objects built from queues, \<open>settings\<close> from the
  path. The files are a map from path to content.
\<close>

datatype ('q, 'a) attr =
    Path string
  | Queue 'q
  | PluginsObj 'q 'q
  | GlobalObj 'q 'q
  | StateObj 'q
  | SettingsObj string
  | Authors "'a list"

datatype 'a author_attr = One 'a | Several "'a list"

definition ensure_settings_file :: "string \<Rightarrow> (string \<rightharpoonup> string) \<Rightarrow> (string \<rightharpoonup> string)" where
  "ensure_settings_file path files =
     (if files (path @ ''/settings.json'') = None
      then files(path @ ''/settings.json'' \<mapsto> ''{}'')
      else files)"

definition new ::
  "'a author_attr \<Rightarrow> (string \<rightharpoonup> string) \<Rightarrow> string \<Rightarrow> 'q \<Rightarrow> 'q \<Rightarrow> 'q \<Rightarrow> 'q \<Rightarrow> 'q \<Rightarrow> 'q \<Rightarrow> 'q
     \<Rightarrow> 'q \<Rightarrow> 'q \<Rightarrow> 'q \<Rightarrow> 'q \<Rightarrow> 'q \<Rightarrow> 'q \<Rightarrow> 'q
     \<Rightarrow> (string \<times> ('q, 'a) attr) list \<times> (string \<rightharpoonup> string)" where
  "new author files path return_queue plugins_queue plugins_return_queue
       tags_queue tags_return_queue settings_menu_queue settings_menu_return_queue
       frontend_queue frontend_return_queue immediate_queue immediate_return_queue
       state_queue performance_queue performance_return_queue =
     ([(''path'', Path path),
       (''return_queue'', Queue return_queue),
       (''plugins_queue'', Queue plugins_queue),
       (''plugins_return_queue'', Queue plugins_return_queue),
       (''settings_menu_queue'', Queue settings_menu_queue),
       (''settings_menu_return_queue'', Queue settings_menu_return_queue),
       (''frontend_queue'', Queue frontend_queue),
       (''frontend_return_queue'', Queue frontend_return_queue),
       (''immediate_queue'', Queue immediate_queue),
       (''immediate_return_queue'', Queue immediate_return_queue),
       (''state_queue'', Queue state_queue),
       (''performance_queue'', Queue performance_queue),
       (''performance_return_queue'', Queue performance_return_queue),
       (''plugins'', PluginsObj plugins_queue plugins_return_queue),
       (''globals'', GlobalObj tags_queue tags_return_queue),
       (''state'', StateObj state_queue),
       (''settings'', SettingsObj path),
       (''author'', Authors (case author of One a \<Rightarrow> [a] | Several as \<Rightarrow> as))],
      ensure_settings_file path files)"

text \<open>
  The six concerns of the queue protocol and the names the code gives their queues:
  \<open>x_queue\<close> and \<open>x_return_queue\<close>.
\<close>

datatype concern =
  ReturnValues | SettingsMenu | FrontendCalls | ImmediateDialogs | StateUpdates | Performance

fun stem :: "concern \<Rightarrow> string" where
  "stem ReturnValues = ''return''"
| "stem SettingsMenu = ''settings_menu''"
| "stem FrontendCalls = ''frontend''"
| "stem ImmediateDialogs = ''immediate''"
| "stem StateUpdates = ''state''"
| "stem Performance = ''performance''"

definition queue_attr :: "(string \<times> ('q, 'a) attr) list \<Rightarrow> string \<Rightarrow> 'q option" where
  "queue_attr inst name =
     (case map_of inst name of Some (Queue q) \<Rightarrow> Some q | _ \<Rightarrow> None)"

definition forward_queue :: "(string \<times> ('q, 'a) attr) list \<Rightarrow> concern \<Rightarrow> 'q option" where
  "forward_queue inst c = queue_attr inst (stem c @ ''_queue'')"

definition matching_return_queue ::
  "(string \<times> ('q, 'a) attr) list \<Rightarrow> concern \<Rightarrow> 'q option" where
  "matching_return_queue inst c = queue_attr inst (stem c @ ''_return_queue'')"

definition has_queue_pair :: "(string \<times> ('q, 'a) attr) list \<Rightarrow> concern \<Rightarrow> bool" where
  "has_queue_pair inst c =
     (forward_queue inst c \<noteq> None \<and> matching_return_queue inst c \<noteq> None)"

subsection \<open>The instance and its threads\<close>

text \<open>
  The fields of an \<open>ETS2LAPlugin\<close> instance that its threads use. \<open>'menu\<close> is the type
  of the settings-menu object and \<open>'self\<close> the attributes the plugin subclass adds.
  \<open>ticks\<close> counts the calls of \<open>time.time()\<close> made so far, and \<open>trace\<close> lists what
  the main loop did, in order: the methods it entered, the data it put on the return
  queue, the calls of \<open>time.sleep\<close> with their argument.
\<close>

datatype event = Called string | PutReturn pyval | Slept real

record ('menu, 'self) worker =
  fps_cap :: int
  settings_menu :: "'menu option"
  performance :: "(real \<times> real) list"
  start_time :: real
  end_time :: real
  return_queue :: "pyval jqueue"
  settings_menu_queue :: "pyval jqueue"
  settings_menu_return_queue :: "pyval jqueue"
  frontend_queue :: "pyval jqueue"
  frontend_return_queue :: "pyval jqueue"
  immediate_queue :: "pyval jqueue"
  immediate_return_queue :: "pyval jqueue"
  performance_queue :: "pyval jqueue"
  performance_return_queue :: "(real \<times> real) list jqueue"
  self_attrs :: 'self
  logged :: "string list"
  ticks :: nat
  trace :: "event list"

text \<open>
  \<open>time.time()\<close>: the clock is a function \<open>now\<close> from the number of the reading to the
  time read.
\<close>

definition time_time :: "(nat \<Rightarrow> real) \<Rightarrow> ('m, 's) worker \<Rightarrow> real \<times> ('m, 's) worker" where
  "time_time now w = (now (ticks w), w\<lparr>ticks := Suc (ticks w)\<rparr>)"

text \<open>What a thread is doing when its function is left or has used up its input.\<close>

datatype thread_status = Running | Blocked | Returned | Died exn

subsection \<open>performance_thread\<close>

text \<open>
  One pass through the body of the \<open>while True\<close> loop of \<open>performance_thread\<close>:
  \<open>get\<close>, the filter on the last 30 seconds, \<open>task_done\<close>, \<open>put\<close>.
\<close>

definition performance_iteration ::
  "(nat \<Rightarrow> real) \<Rightarrow> ('m, 's) worker \<Rightarrow> thread_status \<times> ('m, 's) worker" where
  "performance_iteration now w =
     (case get True None (performance_queue w) of
        Waiting \<Rightarrow> (Blocked, w)
      | Raised e \<Rightarrow> (Died e, w)
      | Got m q \<Rightarrow>
          let w1 = w\<lparr>performance_queue := q\<rparr>;
              (t, w2) = time_time now w1;
              last_30_seconds = t - 30;
              w3 = w2\<lparr>performance := [x \<leftarrow> performance w2. fst x > last_30_seconds]\<rparr>
          in (case task_done (performance_queue w3) of
                Inl e \<Rightarrow> (Died e, w3)
              | Inr q' \<Rightarrow>
                  (Running,
                   w3\<lparr>performance_queue := q',
                      performance_return_queue :=
                        put (performance w3) (performance_return_queue w3)\<rparr>)))"

text \<open>The loop: it goes round for as long as it is neither waiting nor dead.\<close>

fun performance_thread ::
  "(nat \<Rightarrow> real) \<Rightarrow> nat \<Rightarrow> ('m, 's) worker \<Rightarrow> thread_status \<times> ('m, 's) worker" where
  "performance_thread now 0 w = (Running, w)"
| "performance_thread now (Suc n) w =
     (case performance_iteration now w of
        (Running, w') \<Rightarrow> performance_thread now n w'
      | r \<Rightarrow> r)"

subsection \<open>settings_menu_thread\<close>

text \<open>
  \<open>render\<close> is the \<open>render\<close> method of the settings-menu object; the object holds a
  reference to the plugin, so the method reads the plugin's attributes, and like any
  call it may raise.
\<close>

definition settings_menu_iteration ::
  "('m \<Rightarrow> 's \<Rightarrow> exn + pyval) \<Rightarrow> ('m, 's) worker \<Rightarrow> thread_status \<times> ('m, 's) worker" where
  "settings_menu_iteration render w =
     (case get True None (settings_menu_queue w) of
        Waiting \<Rightarrow> (Blocked, w)
      | Raised e \<Rightarrow> (Died e, w)
      | Got m q \<Rightarrow>
          let w1 = w\<lparr>settings_menu_queue := q\<rparr>
          in (case task_done (settings_menu_queue w1) of
                Inl e \<Rightarrow> (Died e, w1)
              | Inr q' \<Rightarrow>
                  let w2 = w1\<lparr>settings_menu_queue := q'\<rparr>
                  in (case settings_menu w2 of
                        None \<Rightarrow> (Died AttributeError, w2)
                      | Some menu \<Rightarrow>
                          (case render menu (self_attrs w2) of
                             Inl e \<Rightarrow> (Died e, w2)
                           | Inr page \<Rightarrow>
                               (Running,
                                w2\<lparr>settings_menu_return_queue :=
                                     put page (settings_menu_return_queue w2)\<rparr>)))))"

fun settings_menu_loop ::
  "('m \<Rightarrow> 's \<Rightarrow> exn + pyval) \<Rightarrow> nat \<Rightarrow> ('m, 's) worker \<Rightarrow> thread_status \<times> ('m, 's) worker" where
  "settings_menu_loop render 0 w = (Running, w)"
| "settings_menu_loop render (Suc n) w =
     (case settings_menu_iteration render w of
        (Running, w') \<Rightarrow> settings_menu_loop render n w'
      | r \<Rightarrow> r)"

text \<open>
  The thread function: the loop is entered only when the plugin class has a settings menu
  that is not \<open>None\<close>; otherwise the function returns at once.
\<close>

definition settings_menu_thread ::
  "('m \<Rightarrow> 's \<Rightarrow> exn + pyval) \<Rightarrow> nat \<Rightarrow> ('m, 's) worker \<Rightarrow> thread_status \<times> ('m, 's) worker" where
  "settings_menu_thread render n w =
     (if settings_menu w \<noteq> None then settings_menu_loop render n w else (Returned, w))"

subsection \<open>frontend_thread\<close>

text \<open>
  What \<open>getattr(self, name)\<close> finds on the plugin: a method, which takes positional and
  keyword arguments, may change the plugin's attributes and may raise (\<open>Some e\<close>), or a
  value that is not callable.
\<close>

datatype 's attribute =
    Method "pyval list \<Rightarrow> (string \<times> pyval) list \<Rightarrow> 's \<Rightarrow> exn option \<times> 's"
  | Field pyval

fun getattr :: "(string \<Rightarrow> 's attribute option) \<Rightarrow> pyval \<Rightarrow> exn + 's attribute" where
  "getattr lookup (PStr name) =
     (case lookup name of None \<Rightarrow> Inl AttributeError | Some a \<Rightarrow> Inr a)"
| "getattr lookup _ = Inl TypeError"

text \<open>The flat pixel list of an array cut into its rows.\<close>

fun rows :: "nat \<Rightarrow> 'a list \<Rightarrow> nat \<Rightarrow> 'a list list" where
  "rows 0 xs k = []"
| "rows (Suc n) xs k = take k xs # rows n (drop k xs) k"

text \<open>\<open>*args\<close> takes any iterable, \<open>**kwargs\<close> a mapping.\<close>

fun star_args :: "pyval \<Rightarrow> exn + pyval list" where
  "star_args (PList xs) = Inr xs"
| "star_args (PTuple xs) = Inr xs"
| "star_args (PStr s) = Inr (map (\<lambda>c. PStr [c]) s)"
| "star_args (PDict d) = Inr (map (\<lambda>(k, v). PStr k) d)"
| "star_args (PImage (n # shape) px) = Inr (map (PImage shape) (rows n px (prod_list shape)))"
| "star_args _ = Inl TypeError"

fun star_kwargs :: "pyval \<Rightarrow> exn + (string \<times> pyval) list" where
  "star_kwargs (PDict d) = Inr d"
| "star_kwargs _ = Inl TypeError"

text \<open>
  \<open>getattr(self, data["target"])(*args, **kwargs)\<close>, with \<open>None\<close> where the call
  passes no positional or no keyword arguments.
\<close>

definition call_target ::
  "(string \<Rightarrow> 's attribute option) \<Rightarrow> pyval \<Rightarrow> pyval option \<Rightarrow> pyval option \<Rightarrow> 's
     \<Rightarrow> exn option \<times> 's" where
  "call_target lookup data args kwargs s =
     (case subscript data ''target'' of
        Inl e \<Rightarrow> (Some e, s)
      | Inr name \<Rightarrow>
     (case getattr lookup name of
        Inl e \<Rightarrow> (Some e, s)
      | Inr a \<Rightarrow>
     (case (case args of None \<Rightarrow> Inr [] | Some v \<Rightarrow> star_args v) of
        Inl e \<Rightarrow> (Some e, s)
      | Inr pos \<Rightarrow>
     (case (case kwargs of None \<Rightarrow> Inr [] | Some v \<Rightarrow> star_kwargs v) of
        Inl e \<Rightarrow> (Some e, s)
      | Inr kw \<Rightarrow>
     (case a of
        Field v \<Rightarrow> (Some TypeError, s)
      | Method f \<Rightarrow> f pos kw s)))))"

text \<open>The body of the \<open>try\<close> of \<open>frontend_thread\<close>.\<close>

definition frontend_dispatch ::
  "(string \<Rightarrow> 's attribute option) \<Rightarrow> pyval \<Rightarrow> 's \<Rightarrow> exn option \<times> 's" where
  "frontend_dispatch lookup data s =
     (case subscript data ''operation'' of
        Inl e \<Rightarrow> (Some e, s)
      | Inr operation \<Rightarrow>
          if py_eq operation (PStr ''function'') then
            (case subscript data ''args'' of
               Inl e \<Rightarrow> (Some e, s)
             | Inr args \<Rightarrow>
            (case subscript data ''kwargs'' of
               Inl e \<Rightarrow> (Some e, s)
             | Inr kwargs \<Rightarrow>
                 if \<not> py_eq args (PTuple [PList [], PDict []]) then
                   if \<not> py_eq kwargs (PDict []) then
                     call_target lookup data (Some args) (Some kwargs) s
                   else call_target lookup data (Some args) None s
                 else if \<not> py_eq kwargs (PDict []) then
                   call_target lookup data None (Some kwargs) s
                 else call_target lookup data None None s))
          else (None, s))"

text \<open>
  One pass through the loop of \<open>frontend_thread\<close>. The bare \<open>except: pass\<close> drops the
  exception of the dispatch, whatever it is; what the dispatch did to the plugin's
  attributes before it raised stays done.
\<close>

definition frontend_iteration ::
  "(string \<Rightarrow> 's attribute option) \<Rightarrow> ('m, 's) worker \<Rightarrow> thread_status \<times> ('m, 's) worker" where
  "frontend_iteration lookup w =
     (case get True None (frontend_queue w) of
        Waiting \<Rightarrow> (Blocked, w)
      | Raised e \<Rightarrow> (Died e, w)
      | Got data q \<Rightarrow>
          let w1 = w\<lparr>frontend_queue := q\<rparr>;
              (raised, s) = frontend_dispatch lookup data (self_attrs w1);
              w2 = w1\<lparr>self_attrs := s\<rparr>
          in (case task_done (frontend_queue w2) of
                Inl e \<Rightarrow> (Died e, w2)
              | Inr q' \<Rightarrow>
                  (Running,
                   w2\<lparr>frontend_queue := q',
                      frontend_return_queue := put PNone (frontend_return_queue w2)\<rparr>)))"

fun frontend_thread ::
  "(string \<Rightarrow> 's attribute option) \<Rightarrow> nat \<Rightarrow> ('m, 's) worker
     \<Rightarrow> thread_status \<times> ('m, 's) worker" where
  "frontend_thread lookup 0 w = (Running, w)"
| "frontend_thread lookup (Suc n) w =
     (case frontend_iteration lookup w of
        (Running, w') \<Rightarrow> frontend_thread lookup n w'
      | r \<Rightarrow> r)"

text \<open>
  The three loops above take the number of passes to run as an argument: the result
  \<open>Running\<close> says that all of them were run and the loop goes on, \<open>Blocked\<close> that the
  thread waits in \<open>get\<close> on an empty queue, \<open>Returned\<close> that the thread function was
  left, \<open>Died e\<close> that \<open>e\<close> was raised out of it.
\<close>

subsection \<open>The main loop: plugin, before, after\<close>

definition before :: "(nat \<Rightarrow> real) \<Rightarrow> ('m, 's) worker \<Rightarrow> ('m, 's) worker" where
  "before now w =
     (let w0 = w\<lparr>trace := trace w @ [Called ''before'']\<rparr>;
          (t, w1) = time_time now w0
      in w1\<lparr>start_time := t\<rparr>)"

text \<open>
  \<open>after\<close>: the division \<open>1/self.fps_cap\<close> raises when \<open>fps_cap\<close> is 0, after the
  data was put and \<open>end_time\<close> was set.
\<close>

definition after ::
  "(nat \<Rightarrow> real) \<Rightarrow> pyval \<Rightarrow> ('m, 's) worker \<Rightarrow> exn option \<times> ('m, 's) worker" where
  "after now data w =
     (let w0 = w\<lparr>trace := trace w @ [Called ''after'']\<rparr>;
          w1 = (if data \<noteq> PNone
                then w0\<lparr>return_queue := put data (return_queue w0),
                        trace := trace w0 @ [PutReturn data]\<rparr>
                else w0);
          (t, w2) = time_time now w1;
          w3 = w2\<lparr>end_time := t\<rparr>
      in if fps_cap w3 = 0 then (Some ZeroDivisionError, w3)
         else
           let time_to_sleep =
                 max (1 / real_of_int (fps_cap w3) - (end_time w3 - start_time w3)) 0;
               w4 = (if time_to_sleep > 0
                     then w3\<lparr>trace := trace w3 @ [Slept time_to_sleep]\<rparr>
                     else w3);
               (t', w5) = time_time now w4
           in (None,
               w5\<lparr>performance := performance w5 @ [(start_time w5, t' - start_time w5)]\<rparr>))"

text \<open>
  \<open>run\<close> is the method of the plugin subclass: it works on the plugin's attributes and
  returns the frame's data or raises.
\<close>

definition plugin ::
  "(nat \<Rightarrow> real) \<Rightarrow> ('s \<Rightarrow> (exn + pyval) \<times> 's) \<Rightarrow> ('m, 's) worker
     \<Rightarrow> exn option \<times> ('m, 's) worker" where
  "plugin now run w =
     (let w1 = before now w;
          w2 = w1\<lparr>trace := trace w1 @ [Called ''run'']\<rparr>;
          (r, s) = run (self_attrs w2);
          w3 = w2\<lparr>self_attrs := s\<rparr>
      in case r of
           Inl e \<Rightarrow> (Some e, w3)
         | Inr data \<Rightarrow> after now data w3)"

text \<open>The \<open>while True: self.plugin()\<close> that ends \<open>__init__\<close>, run for \<open>n\<close> passes.\<close>

fun main_loop ::
  "(nat \<Rightarrow> real) \<Rightarrow> ('s \<Rightarrow> (exn + pyval) \<times> 's) \<Rightarrow> nat \<Rightarrow> ('m, 's) worker
     \<Rightarrow> thread_status \<times> ('m, 's) worker" where
  "main_loop now run 0 w = (Running, w)"
| "main_loop now run (Suc n) w =
     (case plugin now run w of
        (Some e, w') \<Rightarrow> (Died e, w')
      | (None, w') \<Rightarrow> main_loop now run n w')"

subsection \<open>notify, ask, dialog\<close>

text \<open>How a call ends: with a value, with an exception, or not at all (waiting in \<open>get\<close>).\<close>

datatype 'a outcome = Return 'a | Raise exn | Block

definition notify ::
  "pyval \<Rightarrow> pyval \<Rightarrow> ('m, 's) worker \<Rightarrow> pyval outcome \<times> ('m, 's) worker" where
  "notify text type w =
     (let w1 = w\<lparr>immediate_queue :=
                  put (PDict [(''operation'', PStr ''notify''),
                              (''options'', PDict [(''text'', text), (''type'', type)])])
                      (immediate_queue w)\<rparr>
      in case get True None (immediate_return_queue w1) of
           Waiting \<Rightarrow> (Block, w1)
         | Raised e \<Rightarrow> (Raise e, w1)
         | Got data q \<Rightarrow>
             let w2 = w1\<lparr>immediate_return_queue := q\<rparr>
             in (case task_done (immediate_return_queue w2) of
                   Inl e \<Rightarrow> (Raise e, w2)
                 | Inr q' \<Rightarrow> (Return data, w2\<lparr>immediate_return_queue := q'\<rparr>)))"

definition ask ::
  "pyval \<Rightarrow> pyval \<Rightarrow> pyval \<Rightarrow> ('m, 's) worker \<Rightarrow> pyval outcome \<times> ('m, 's) worker" where
  "ask text options description w =
     (let w1 = w\<lparr>immediate_queue :=
                  put (PDict [(''operation'', PStr ''ask''),
                              (''options'', PDict [(''text'', text),
                                                   (''description'', description),
                                                   (''options'', options)])])
                      (immediate_queue w)\<rparr>
      in case get True None (immediate_return_queue w1) of
           Waiting \<Rightarrow> (Block, w1)
         | Raised e \<Rightarrow> (Raise e, w1)
         | Got data q \<Rightarrow>
             (case subscript data ''response'' of
                Inl e \<Rightarrow> (Raise e, w1\<lparr>immediate_return_queue := q\<rparr>)
              | Inr r \<Rightarrow> (Return r, w1\<lparr>immediate_return_queue := q\<rparr>)))"

text \<open>
  \<open>dialog.build()\<close> is evaluated before the \<open>put\<close>; \<open>build\<close> is the method of the
  dialog object.
\<close>

definition dialog ::
  "('d \<Rightarrow> exn + pyval) \<Rightarrow> 'd \<Rightarrow> ('m, 's) worker \<Rightarrow> pyval outcome \<times> ('m, 's) worker" where
  "dialog build dlg w =
     (case build dlg of
        Inl e \<Rightarrow> (Raise e, w)
      | Inr built \<Rightarrow>
          let w1 = w\<lparr>immediate_queue :=
                      put (PDict [(''operation'', PStr ''dialog''), (''options'', built)])
                          (immediate_queue w)\<rparr>
          in (case get True None (immediate_return_queue w1) of
                Waiting \<Rightarrow> (Block, w1)
              | Raised e \<Rightarrow> (Raise e, w1)
              | Got data q \<Rightarrow> (Return data, w1\<lparr>immediate_return_queue := q\<rparr>)))"

text \<open>A worker to run the definitions on.\<close>

definition worker0 :: "(unit, int) worker" where
  "worker0 =
     \<lparr>fps_cap = 30, settings_menu = None, performance = [],
      start_time = 0, end_time = 0,
      return_queue = new_queue,
      settings_menu_queue = new_queue, settings_menu_return_queue = new_queue,
      frontend_queue = new_queue, frontend_return_queue = new_queue,
      immediate_queue = new_queue, immediate_return_queue = new_queue,
      performance_queue = new_queue, performance_return_queue = new_queue,
      self_attrs = 0, logged = [], ticks = 0, trace = []\<rparr>"

text \<open>
  A plugin class to run them on: \<open>add\<close> counts up the plugin's one attribute, \<open>fail\<close>
  raises, \<open>fps\<close> is not callable; and a settings menu whose page shows the attribute.
\<close>

definition lookup0 :: "string \<Rightarrow> int attribute option" where
  "lookup0 name =
     (if name = ''add'' then Some (Method (\<lambda>args kwargs s. (None, s + 1)))
      else if name = ''fail'' then Some (Method (\<lambda>args kwargs s. (Some (Exception ''boom''), s)))
      else if name = ''fps'' then Some (Field (PInt 30))
      else None)"

definition render0 :: "unit \<Rightarrow> int \<Rightarrow> exn + pyval" where
  "render0 menu s = Inr (PList [PInt s])"

definition call_message :: "string \<Rightarrow> pyval" where
  "call_message target =
     PDict [(''operation'', PStr ''function''), (''target'', PStr target),
            (''args'', PList []), (''kwargs'', PDict [])]"

definition one_request :: "pyval \<Rightarrow> pyval jqueue" where
  "one_request m = \<lparr>items = [m], unfinished = 1\<rparr>"

definition worker1 :: "(unit, int) worker" where
  "worker1 =
     worker0\<lparr>settings_menu := Some (),
             settings_menu_queue := one_request PNone,
             frontend_queue := one_request (call_message ''missing''),
             performance_queue := one_request PNone\<rparr>"

text \<open>
  A \<open>run\<close> that returns the plugin's attribute as the frame's data and counts it up, one
  that returns \<open>None\<close>, and a dialog whose \<open>build()\<close> gives its text.
\<close>

definition run0 :: "int \<Rightarrow> (exn + pyval) \<times> int" where
  "run0 s = (Inr (PInt s), s + 1)"

definition build0 :: "string \<Rightarrow> exn + pyval" where
  "build0 dlg = Inr (PStr dlg)"

definition worker2 :: "(unit, int) worker" where
  "worker2 =
     worker0\<lparr>immediate_return_queue :=
               \<lparr>items = [PDict [(''response'', PStr ''yes'')]], unfinished = 1\<rparr>\<rparr>"

text \<open>The methods the main loop entered, in order.\<close>

fun called :: "event list \<Rightarrow> string list" where
  "called [] = []"
| "called (Called name # es) = name # called es"
| "called (e # es) = called es"

section \<open>Map data extraction (plugins/Map/utils/data_extractor.py)\<close>

text \<open>
  The file system is a map from path to node. \<open>inside path p\<close> says that \<open>p\<close> is
  \<open>path\<close> or lies below it.
\<close>

datatype node = File string | Dir

definition DATA_FILENAME :: string where
  "DATA_FILENAME = ''plugins/Map/data.zip''"

definition inside :: "string \<Rightarrow> string \<Rightarrow> bool" where
  "inside path p = (p = path \<or> prefix (path @ ''/'') p)"

definition rmtree :: "string \<Rightarrow> (string \<rightharpoonup> node) \<Rightarrow> exn + (string \<rightharpoonup> node)" where
  "rmtree path fs =
     (case fs path of
        Some Dir \<Rightarrow> Inr (\<lambda>p. if inside path p then None else fs p)
      | Some (File c) \<Rightarrow> Inl OSError
      | None \<Rightarrow> Inl FileNotFoundError)"

fun extractall ::
  "string \<Rightarrow> (string \<times> string) list \<Rightarrow> (string \<rightharpoonup> node) \<Rightarrow> (string \<rightharpoonup> node)" where
  "extractall path [] fs = fs"
| "extractall path ((name, content) # entries) fs =
     extractall path entries (fs(path @ ''/'' @ name \<mapsto> File content))"

text \<open>
  \<open>ExtractData\<close>. \<open>unzip\<close> reads the entries of an archive from its bytes, or raises
  when the bytes are no zip archive.
\<close>

definition ExtractData ::
  "(string \<Rightarrow> exn + (string \<times> string) list) \<Rightarrow> string \<Rightarrow> (string \<rightharpoonup> node)
     \<Rightarrow> exn option \<times> (string \<rightharpoonup> node)" where
  "ExtractData unzip path fs =
     (case (if fs path \<noteq> None then rmtree path fs else Inr fs) of
        Inl e \<Rightarrow> (Some e, fs)
      | Inr fs1 \<Rightarrow>
          let fs2 = (if fs1 path = None then fs1(path \<mapsto> Dir) else fs1)
          in (case fs2 DATA_FILENAME of
                None \<Rightarrow> (Some FileNotFoundError, fs2)
              | Some Dir \<Rightarrow> (Some OSError, fs2)
              | Some (File bytes) \<Rightarrow>
                  (case unzip bytes of
                     Inl e \<Rightarrow> (Some e, fs2)
                   | Inr entries \<Rightarrow> (None, extractall path entries fs2))))"

text \<open>
  The state \<open>UpdateData\<close> works on: the module's global \<open>DATA_HASH\<close> (read from the
  settings when the module is loaded, \<open>None\<close> when never stored), the file system, the
  calls of \<open>settings.Set\<close> made, and the warnings logged. \<open>md5\<close> is the hex digest of
  the archive's bytes.
\<close>

record map_data =
  DATA_HASH :: pyval
  filesystem :: "string \<rightharpoonup> node"
  settings_writes :: "(string \<times> string \<times> pyval) list"
  warnings :: "string list"

definition UpdateData ::
  "(string \<Rightarrow> string) \<Rightarrow> (string \<Rightarrow> exn + (string \<times> string) list) \<Rightarrow> string \<Rightarrow> map_data
     \<Rightarrow> (exn + bool) \<times> map_data" where
  "UpdateData md5 unzip path st =
     (case filesystem st DATA_FILENAME of
        None \<Rightarrow> (Inl FileNotFoundError, st)
      | Some Dir \<Rightarrow> (Inl OSError, st)
      | Some (File bytes) \<Rightarrow>
          let new_hash = md5 bytes
          in if DATA_HASH st = PNone then
               let st1 = st\<lparr>warnings := warnings st @ [''map.extracting_data'', ''(No Hash)''],
                             DATA_HASH := PStr new_hash\<rparr>;
                   st2 = st1\<lparr>settings_writes :=
                              settings_writes st1 @ [(''Map'', ''data_hash'', DATA_HASH st1)]\<rparr>
               in (case ExtractData unzip path (filesystem st2) of
                     (Some e, fs) \<Rightarrow> (Inl e, st2\<lparr>filesystem := fs\<rparr>)
                   | (None, fs) \<Rightarrow> (Inr True, st2\<lparr>filesystem := fs\<rparr>))
             else if \<not> py_eq (DATA_HASH st) (PStr new_hash) then
               let st1 = st\<lparr>warnings := warnings st @ [''map.extracting_data''],
                             DATA_HASH := PStr new_hash\<rparr>;
                   st2 = st1\<lparr>settings_writes :=
                              settings_writes st1 @ [(''Map'', ''data_hash'', PStr new_hash)]\<rparr>
               in (case ExtractData unzip path (filesystem st2) of
                     (Some e, fs) \<Rightarrow> (Inl e, st2\<lparr>filesystem := fs\<rparr>)
                   | (None, fs) \<Rightarrow> (Inr True, st2\<lparr>filesystem := fs\<rparr>))
             else (Inr False, st))"

text \<open>An installation to run it on: the archive is there, nothing is extracted yet.\<close>

definition md5_0 :: "string \<Rightarrow> string" where
  "md5_0 bytes = ''md5:'' @ bytes"

definition unzip0 :: "string \<Rightarrow> exn + (string \<times> string) list" where
  "unzip0 bytes = (if bytes = [] then Inl BadZipFile else Inr [(''roads.json'', bytes)])"

definition map_data0 :: map_data where
  "map_data0 =
     \<lparr>DATA_HASH = PNone,
      filesystem = [DATA_FILENAME \<mapsto> File ''PK''],
      settings_writes = [],
      warnings = []\<rparr>"

section \<open>The CruiseControl plugin (plugins/CruiseControl/main.py)\<close>







































section \<open>Properties\<close>

subsection \<open>The performance thread\<close>

text \<open>
  C8. For a request waiting on the performance queue, the performance thread drops every
  (timestamp, duration) entry whose timestamp is not greater than the time read minus 30,
  keeps the others in order, and puts exactly the kept list on the performance return
  queue; so every sample of the reply is from the last 30 seconds.
\<close>

theorem performance_reply_last_30_seconds:
  assumes "items (performance_queue w) = m # ms"
    and "queue_ok (performance_queue w)"
  shows "\<exists>w'. performance_iteration now w = (Running, w')
     \<and> performance w' = [x \<leftarrow> performance w. \<not> fst x \<le> now (ticks w) - 30]
     \<and> items (performance_return_queue w') =
         items (performance_return_queue w) @ [performance w']
     \<and> (\<forall>x \<in> set (performance w'). now (ticks w) - 30 < fst x)
     \<and> (\<forall>x \<in> set (performance w). now (ticks w) - 30 < fst x \<longrightarrow> x \<in> set (performance w'))
     \<and> items (performance_queue w') = ms"
  using assms
  by (auto simp: performance_iteration_def get_def task_done_def put_def time_time_def
      queue_ok_def Let_def not_le)

theorem performance_reply_last_30_seconds_witness:
  "items (performance_queue (worker0\<lparr>performance := [(60, 1), (80, 1)],
        performance_queue := \<lparr>items = [PNone], unfinished = 1\<rparr>\<rparr>)) = [PNone]
   \<and> queue_ok (performance_queue (worker0\<lparr>performance := [(60, 1), (80, 1)],
        performance_queue := \<lparr>items = [PNone], unfinished = 1\<rparr>\<rparr>))
   \<and> (\<exists>w'. performance_iteration (\<lambda>n. 100)
          (worker0\<lparr>performance := [(60, 1), (80, 1)],
                   performance_queue := \<lparr>items = [PNone], unfinished = 1\<rparr>\<rparr>) = (Running, w')
        \<and> performance w' = [(80, 1)]
        \<and> items (performance_return_queue w') = [[(80, 1)]])"
proof -
  let ?w = "worker0\<lparr>performance := [(60, 1), (80, 1)],
                   performance_queue := \<lparr>items = [PNone], unfinished = 1\<rparr>\<rparr>"
  have h1: "items (performance_queue ?w) = [PNone]" by simp
  have h2: "queue_ok (performance_queue ?w)" by (simp add: queue_ok_def)
  from performance_reply_last_30_seconds [OF h1 h2, of "\<lambda>n. 100"]
  obtain w' where "performance_iteration (\<lambda>n. 100) ?w = (Running, w')"
    and "performance w' = [x \<leftarrow> performance ?w. \<not> fst x \<le> 100 - 30]"
    and "items (performance_return_queue w') =
           items (performance_return_queue ?w) @ [performance w']"
    by blast
  then show ?thesis using h1 h2 by (auto simp: worker0_def new_queue_def)
qed

subsection \<open>The helper threads\<close>

lemma task_done_ok:
  "queue_ok q \<Longrightarrow> items q = m # ms \<Longrightarrow>
   task_done (q\<lparr>items := ms\<rparr>) = Inr \<lparr>items = ms, unfinished = unfinished q - 1\<rparr>"
  by (cases q) (auto simp: queue_ok_def task_done_def)

lemma get_empty: "items q = [] \<Longrightarrow> get True None q = Waiting"
  by (simp add: get_def)

lemma get_cons: "items q = m # ms \<Longrightarrow> get b t q = Got m (q\<lparr>items := ms\<rparr>)"
  by (simp add: get_def)

lemma queue_ok_served:
  "queue_ok q \<Longrightarrow> items q = m # ms \<Longrightarrow>
   queue_ok \<lparr>items = ms, unfinished = unfinished q - 1\<rparr>"
  by (auto simp: queue_ok_def)

lemma settings_menu_iteration_blocks:
  "items (settings_menu_queue w) = [] \<Longrightarrow> settings_menu_iteration render w = (Blocked, w)"
  by (simp add: settings_menu_iteration_def get_empty)

lemma settings_menu_iteration_serves:
  assumes "items (settings_menu_queue w) = m # ms"
    and "queue_ok (settings_menu_queue w)"
    and "settings_menu w = Some menu"
    and "render menu (self_attrs w) = Inr page"
  shows "settings_menu_iteration render w =
     (Running,
      w\<lparr>settings_menu_queue :=
           \<lparr>items = ms, unfinished = unfinished (settings_menu_queue w) - 1\<rparr>,
        settings_menu_return_queue := put page (settings_menu_return_queue w)\<rparr>)"
  using assms
  by (simp add: settings_menu_iteration_def get_cons task_done_ok Let_def)

lemma settings_menu_loop_serves:
  assumes "queue_ok (settings_menu_queue w)"
    and "settings_menu w = Some menu"
    and "render menu (self_attrs w) = Inr page"
  shows "\<exists>w'. settings_menu_loop render n w =
           (if n \<le> length (items (settings_menu_queue w)) then Running else Blocked, w')
     \<and> items (settings_menu_return_queue w') =
         items (settings_menu_return_queue w)
           @ replicate (min n (length (items (settings_menu_queue w)))) page
     \<and> items (settings_menu_queue w') = drop n (items (settings_menu_queue w))"
  using assms
proof (induction n arbitrary: w)
  case 0
  then show ?case by simp
next
  case (Suc n)
  show ?case
  proof (cases "items (settings_menu_queue w)")
    case Nil
    then show ?thesis by (simp add: settings_menu_iteration_blocks)
  next
    case (Cons m ms)
    let ?w' = "w\<lparr>settings_menu_queue :=
           \<lparr>items = ms, unfinished = unfinished (settings_menu_queue w) - 1\<rparr>,
        settings_menu_return_queue := put page (settings_menu_return_queue w)\<rparr>"
    have it: "settings_menu_iteration render w = (Running, ?w')"
      using Cons Suc.prems by (simp add: settings_menu_iteration_serves)
    have ok: "queue_ok (settings_menu_queue ?w')"
      using queue_ok_served [OF Suc.prems(1) Cons] by simp
    from Suc.IH [of ?w', OF ok] Suc.prems(2,3)
    obtain w'' where
      "settings_menu_loop render n ?w' =
         (if n \<le> length (items (settings_menu_queue ?w')) then Running else Blocked, w'')"
      "items (settings_menu_return_queue w'') =
         items (settings_menu_return_queue ?w')
           @ replicate (min n (length (items (settings_menu_queue ?w')))) page"
      "items (settings_menu_queue w'') = drop n (items (settings_menu_queue ?w'))"
      by auto
    then show ?thesis
      using it Cons by (simp add: put_def replicate_app_Cons_same)
  qed
qed

lemma frontend_iteration_blocks:
  "items (frontend_queue w) = [] \<Longrightarrow> frontend_iteration lookup w = (Blocked, w)"
  by (simp add: frontend_iteration_def get_empty)

lemma frontend_iteration_serves:
  assumes "items (frontend_queue w) = data # rest"
    and "queue_ok (frontend_queue w)"
  shows "\<exists>w'. frontend_iteration lookup w = (Running, w')
     \<and> frontend_queue w' = \<lparr>items = rest, unfinished = unfinished (frontend_queue w) - 1\<rparr>
     \<and> frontend_return_queue w' = put PNone (frontend_return_queue w)
     \<and> logged w' = logged w
     \<and> self_attrs w' = snd (frontend_dispatch lookup data (self_attrs w))"
  using assms
  by (simp add: frontend_iteration_def get_cons task_done_ok Let_def split: prod.split)

lemma frontend_thread_serves:
  assumes "queue_ok (frontend_queue w)"
  shows "\<exists>w'. frontend_thread lookup n w =
           (if n \<le> length (items (frontend_queue w)) then Running else Blocked, w')
     \<and> items (frontend_return_queue w') =
         items (frontend_return_queue w)
           @ replicate (min n (length (items (frontend_queue w)))) PNone
     \<and> items (frontend_queue w') = drop n (items (frontend_queue w))"
  using assms
proof (induction n arbitrary: w)
  case 0
  then show ?case by simp
next
  case (Suc n)
  show ?case
  proof (cases "items (frontend_queue w)")
    case Nil
    then show ?thesis by (simp add: frontend_iteration_blocks)
  next
    case (Cons data rest)
    from frontend_iteration_serves [OF Cons Suc.prems, of lookup]
    obtain w1 where it: "frontend_iteration lookup w = (Running, w1)"
      and q: "frontend_queue w1 =
                \<lparr>items = rest, unfinished = unfinished (frontend_queue w) - 1\<rparr>"
      and r: "frontend_return_queue w1 = put PNone (frontend_return_queue w)"
      by blast
    have ok: "queue_ok (frontend_queue w1)"
      using queue_ok_served [OF Suc.prems Cons] q by simp
    from Suc.IH [OF ok]
    obtain w2 where
      "frontend_thread lookup n w1 =
         (if n \<le> length (items (frontend_queue w1)) then Running else Blocked, w2)"
      "items (frontend_return_queue w2) =
         items (frontend_return_queue w1)
           @ replicate (min n (length (items (frontend_queue w1)))) PNone"
      "items (frontend_queue w2) = drop n (items (frontend_queue w1))"
      by blast
    then show ?thesis
      using it q r Cons by (simp add: put_def replicate_app_Cons_same)
  qed
qed

lemma performance_iteration_blocks:
  "items (performance_queue w) = [] \<Longrightarrow> performance_iteration now w = (Blocked, w)"
  by (simp add: performance_iteration_def get_empty)

lemma performance_iteration_serves:
  assumes "items (performance_queue w) = m # ms"
    and "queue_ok (performance_queue w)"
  shows "\<exists>w'. performance_iteration now w = (Running, w')
     \<and> performance_queue w' =
         \<lparr>items = ms, unfinished = unfinished (performance_queue w) - 1\<rparr>
     \<and> performance_return_queue w' =
         put [x \<leftarrow> performance w. now (ticks w) - 30 < fst x] (performance_return_queue w)"
  using assms
  by (simp add: performance_iteration_def get_cons task_done_ok Let_def time_time_def)

lemma performance_thread_serves:
  assumes "queue_ok (performance_queue w)"
  shows "\<exists>w'. performance_thread now n w =
           (if n \<le> length (items (performance_queue w)) then Running else Blocked, w')
     \<and> length (items (performance_return_queue w')) =
         length (items (performance_return_queue w))
           + min n (length (items (performance_queue w)))
     \<and> items (performance_queue w') = drop n (items (performance_queue w))"
  using assms
proof (induction n arbitrary: w)
  case 0
  then show ?case by simp
next
  case (Suc n)
  show ?case
  proof (cases "items (performance_queue w)")
    case Nil
    then show ?thesis by (simp add: performance_iteration_blocks)
  next
    case (Cons m ms)
    from performance_iteration_serves [OF Cons Suc.prems, of now]
    obtain w1 where it: "performance_iteration now w = (Running, w1)"
      and q: "performance_queue w1 =
                \<lparr>items = ms, unfinished = unfinished (performance_queue w) - 1\<rparr>"
      and r: "performance_return_queue w1 =
         put [x \<leftarrow> performance w. now (ticks w) - 30 < fst x] (performance_return_queue w)"
      by blast
    have ok: "queue_ok (performance_queue w1)"
      using queue_ok_served [OF Suc.prems Cons] q by simp
    from Suc.IH [OF ok]
    obtain w2 where
      "performance_thread now n w1 =
         (if n \<le> length (items (performance_queue w1)) then Running else Blocked, w2)"
      "length (items (performance_return_queue w2)) =
         length (items (performance_return_queue w1))
           + min n (length (items (performance_queue w1)))"
      "items (performance_queue w2) = drop n (items (performance_queue w1))"
      by blast
    then show ?thesis
      using it q r Cons by (simp add: put_def)
  qed
qed

text \<open>
  C2, as amended. The frontend thread and the performance thread never leave their loop:
  run for any number of passes on a request queue that holds \<open>k\<close> requests, each serves
  the requests in order, one reply on its return queue for each request taken, and then
  waits in \<open>get\<close>. The settings-menu thread does the same when the plugin has a settings
  menu whose \<open>render()\<close> returns, and every reply is the result of \<open>render()\<close>; when
  the plugin has no settings menu the thread function returns at once and takes no request.
\<close>

theorem helper_threads_serve_requests:
  assumes "queue_ok (frontend_queue w)"
    and "queue_ok (performance_queue w)"
    and "queue_ok (settings_menu_queue w)"
  shows "(\<exists>w'. frontend_thread lookup n w =
            (if n \<le> length (items (frontend_queue w)) then Running else Blocked, w')
          \<and> items (frontend_return_queue w') =
              items (frontend_return_queue w)
                @ replicate (min n (length (items (frontend_queue w)))) PNone
          \<and> items (frontend_queue w') = drop n (items (frontend_queue w)))
     \<and> (\<exists>w'. performance_thread now n w =
            (if n \<le> length (items (performance_queue w)) then Running else Blocked, w')
          \<and> length (items (performance_return_queue w')) =
              length (items (performance_return_queue w))
                + min n (length (items (performance_queue w)))
          \<and> items (performance_queue w') = drop n (items (performance_queue w)))
     \<and> (\<forall>menu page. settings_menu w = Some menu \<and> render menu (self_attrs w) = Inr page \<longrightarrow>
          (\<exists>w'. settings_menu_thread render n w =
             (if n \<le> length (items (settings_menu_queue w)) then Running else Blocked, w')
           \<and> items (settings_menu_return_queue w') =
               items (settings_menu_return_queue w)
                 @ replicate (min n (length (items (settings_menu_queue w)))) page
           \<and> items (settings_menu_queue w') = drop n (items (settings_menu_queue w))))
     \<and> (settings_menu w = None \<longrightarrow> settings_menu_thread render n w = (Returned, w))"
proof (intro conjI allI impI)
  show "\<exists>w'. frontend_thread lookup n w =
            (if n \<le> length (items (frontend_queue w)) then Running else Blocked, w')
          \<and> items (frontend_return_queue w') =
              items (frontend_return_queue w)
                @ replicate (min n (length (items (frontend_queue w)))) PNone
          \<and> items (frontend_queue w') = drop n (items (frontend_queue w))"
    using frontend_thread_serves [OF assms(1)] .
next
  show "\<exists>w'. performance_thread now n w =
            (if n \<le> length (items (performance_queue w)) then Running else Blocked, w')
          \<and> length (items (performance_return_queue w')) =
              length (items (performance_return_queue w))
                + min n (length (items (performance_queue w)))
          \<and> items (performance_queue w') = drop n (items (performance_queue w))"
    using performance_thread_serves [OF assms(2)] .
next
  fix menu page
  assume h: "settings_menu w = Some menu \<and> render menu (self_attrs w) = Inr page"
  then have "settings_menu_thread render n w = settings_menu_loop render n w"
    by (simp add: settings_menu_thread_def)
  then show "\<exists>w'. settings_menu_thread render n w =
             (if n \<le> length (items (settings_menu_queue w)) then Running else Blocked, w')
           \<and> items (settings_menu_return_queue w') =
               items (settings_menu_return_queue w)
                 @ replicate (min n (length (items (settings_menu_queue w)))) page
           \<and> items (settings_menu_queue w') = drop n (items (settings_menu_queue w))"
    using settings_menu_loop_serves [of w menu render page n] assms(3) h by simp
next
  assume "settings_menu w = None"
  then show "settings_menu_thread render n w = (Returned, w)"
    by (simp add: settings_menu_thread_def)
qed

theorem helper_threads_serve_requests_witness:
  "queue_ok (frontend_queue worker1) \<and> queue_ok (performance_queue worker1)
   \<and> queue_ok (settings_menu_queue worker1)
   \<and> settings_menu worker1 = Some () \<and> render0 () (self_attrs worker1) = Inr (PList [PInt 0])
   \<and> (\<exists>w'. frontend_thread lookup0 2 worker1 = (Blocked, w')
         \<and> items (frontend_return_queue w') = [PNone])
   \<and> (\<exists>w'. performance_thread (\<lambda>n. 100) 2 worker1 = (Blocked, w')
         \<and> length (items (performance_return_queue w')) = 1)
   \<and> (\<exists>w'. settings_menu_thread render0 2 worker1 = (Blocked, w')
         \<and> items (settings_menu_return_queue w') = [PList [PInt 0]])"
proof -
  have h1: "queue_ok (frontend_queue worker1)"
    and h2: "queue_ok (performance_queue worker1)"
    and h3: "queue_ok (settings_menu_queue worker1)"
    by (simp_all add: worker1_def one_request_def queue_ok_def)
  have h4: "settings_menu worker1 = Some () \<and> render0 () (self_attrs worker1) = Inr (PList [PInt 0])"
    by (simp add: worker1_def worker0_def render0_def)
  have k: "items (frontend_queue worker1) = [call_message ''missing'']"
    "items (performance_queue worker1) = [PNone]"
    "items (settings_menu_queue worker1) = [PNone]"
    "items (frontend_return_queue worker1) = []"
    "items (performance_return_queue worker1) = []"
    "items (settings_menu_return_queue worker1) = []"
    by (simp_all add: worker1_def worker0_def one_request_def new_queue_def)
  from helper_threads_serve_requests [OF h1 h2 h3, of lookup0 2 "\<lambda>n. 100" render0] h4
  show ?thesis using h1 h2 h3 k by auto
qed

theorem settings_menu_thread_returns_counterexample:
  "settings_menu_thread render0 1 (worker0\<lparr>settings_menu_queue := one_request PNone\<rparr>)
     = (Returned, worker0\<lparr>settings_menu_queue := one_request PNone\<rparr>)"
  by (simp add: settings_menu_thread_def worker0_def)

text \<open>
  C5. Whatever request the frontend thread takes from its queue and whatever the dispatch
  of the request does, also when it raises (no \<open>operation\<close> key, an unknown target, a
  target that is not callable, arguments that cannot be unpacked, a function body that
  raises), the pass ends the same way: the thread goes on, the request is marked done,
  the reply on the frontend return queue is \<open>None\<close>, and nothing is logged.
\<close>

theorem frontend_thread_swallows_exceptions:
  assumes "items (frontend_queue w) = data # rest"
    and "queue_ok (frontend_queue w)"
  shows "\<exists>w'. frontend_iteration lookup w = (Running, w')
     \<and> frontend_queue w' = \<lparr>items = rest, unfinished = unfinished (frontend_queue w) - 1\<rparr>
     \<and> frontend_return_queue w' = put PNone (frontend_return_queue w)
     \<and> logged w' = logged w
     \<and> self_attrs w' = snd (frontend_dispatch lookup data (self_attrs w))"
  using assms
  by (simp add: frontend_iteration_def get_cons task_done_ok Let_def split: prod.split)

theorem frontend_thread_swallows_exceptions_witness:
  "items (frontend_queue worker1) = [call_message ''missing'']
   \<and> queue_ok (frontend_queue worker1)
   \<and> fst (frontend_dispatch lookup0 (call_message ''missing'') (self_attrs worker1))
       = Some AttributeError
   \<and> (\<exists>w'. frontend_iteration lookup0 worker1 = (Running, w')
        \<and> frontend_queue w' = \<lparr>items = [], unfinished = 0\<rparr>
        \<and> items (frontend_return_queue w') = [PNone]
        \<and> logged w' = [])"
proof -
  have h1: "items (frontend_queue worker1) = [call_message ''missing'']"
    and h2: "queue_ok (frontend_queue worker1)"
    by (simp_all add: worker1_def one_request_def queue_ok_def)
  have h3: "fst (frontend_dispatch lookup0 (call_message ''missing'') (self_attrs worker1))
       = Some AttributeError"
    by (simp add: frontend_dispatch_def call_message_def py_eq_def call_target_def lookup0_def)
  from frontend_thread_swallows_exceptions [OF h1 h2, of lookup0]
  obtain w' where "frontend_iteration lookup0 worker1 = (Running, w')"
    and "frontend_queue w' = \<lparr>items = [], unfinished = unfinished (frontend_queue worker1) - 1\<rparr>"
    and "frontend_return_queue w' = put PNone (frontend_return_queue worker1)"
    and "logged w' = logged worker1"
    by blast
  then show ?thesis using h1 h2 h3
    by (auto simp: worker1_def worker0_def one_request_def new_queue_def put_def)
qed

subsection \<open>The main loop\<close>

lemma called_append: "called (xs @ ys) = called xs @ called ys"
  by (induction xs rule: called.induct) simp_all

lemma plugin_pass:
  assumes "fps_cap w \<noteq> 0"
    and "run (self_attrs w) = (Inr data, s)"
  shows "\<exists>w'. plugin now run w = (None, w')
     \<and> trace w' = trace w @ [Called ''before'', Called ''run'', Called ''after'']
         @ (if data \<noteq> PNone then [PutReturn data] else [])
         @ (if 0 < 1 / real_of_int (fps_cap w) - (now (Suc (ticks w)) - now (ticks w))
            then [Slept (1 / real_of_int (fps_cap w) - (now (Suc (ticks w)) - now (ticks w)))]
            else [])
     \<and> items (return_queue w') =
         items (return_queue w) @ (if data \<noteq> PNone then [data] else [])
     \<and> fps_cap w' = fps_cap w
     \<and> self_attrs w' = s"
  using assms
  by (simp add: plugin_def before_def after_def time_time_def Let_def put_def max_def)

lemma main_loop_runs:
  assumes "fps_cap w \<noteq> 0"
    and "\<forall>s. \<exists>data s'. run s = (Inr data, s')"
  shows "\<exists>w'. main_loop now run n w = (Running, w')
     \<and> called (trace w') =
         called (trace w) @ concat (replicate n [''before'', ''run'', ''after''])
     \<and> fps_cap w' = fps_cap w"
  using assms
proof (induction n arbitrary: w)
  case 0
  then show ?case by simp
next
  case (Suc n)
  from Suc.prems(2) obtain data s where r: "run (self_attrs w) = (Inr data, s)"
    by blast
  from plugin_pass [of w run data s now, OF Suc.prems(1) r]
  obtain w1 where p: "plugin now run w = (None, w1)"
    and c: "called (trace w1) = called (trace w) @ [''before'', ''run'', ''after'']"
    and f: "fps_cap w1 = fps_cap w"
    by (auto simp: called_append)
  from Suc.IH [of w1] f Suc.prems
  obtain w2 where "main_loop now run n w1 = (Running, w2)"
    and "called (trace w2) =
         called (trace w1) @ concat (replicate n [''before'', ''run'', ''after''])"
    and "fps_cap w2 = fps_cap w1"
    by auto
  then show ?case using p c f by simp
qed

text \<open>
  C3. With a frame rate cap other than 0 and a \<open>run()\<close> that returns, the main loop of
  the worker never ends: after any number \<open>n\<close> of passes it is still running and has
  entered \<open>before\<close>, \<open>run\<close>, \<open>after\<close> in that order \<open>n\<close> times. In one pass, \<open>after\<close>
  puts the value returned by \<open>run()\<close> on the return queue iff it is not \<open>None\<close>, and
  then sleeps for what is left of \<open>1/fps_cap\<close> seconds after the time from
  \<open>start_time\<close> to \<open>end_time\<close>, if anything is left.
\<close>

theorem main_loop_before_run_after:
  assumes "fps_cap w \<noteq> 0"
    and "\<forall>s. \<exists>data s'. run s = (Inr data, s')"
  shows "(\<exists>w'. main_loop now run n w = (Running, w')
          \<and> called (trace w') =
              called (trace w) @ concat (replicate n [''before'', ''run'', ''after'']))
     \<and> (\<exists>w' data s. run (self_attrs w) = (Inr data, s)
          \<and> plugin now run w = (None, w')
          \<and> trace w' = trace w @ [Called ''before'', Called ''run'', Called ''after'']
              @ (if data \<noteq> PNone then [PutReturn data] else [])
              @ (if 0 < 1 / real_of_int (fps_cap w) - (now (Suc (ticks w)) - now (ticks w))
                 then [Slept (1 / real_of_int (fps_cap w)
                               - (now (Suc (ticks w)) - now (ticks w)))]
                 else [])
          \<and> items (return_queue w') =
              items (return_queue w) @ (if data \<noteq> PNone then [data] else []))"
proof
  show "\<exists>w'. main_loop now run n w = (Running, w')
          \<and> called (trace w') =
              called (trace w) @ concat (replicate n [''before'', ''run'', ''after''])"
    using main_loop_runs [OF assms, of now n] by blast
next
  from assms(2) obtain data s where r: "run (self_attrs w) = (Inr data, s)"
    by blast
  from plugin_pass [of w run data s now, OF assms(1) r] r
  show "\<exists>w' data s. run (self_attrs w) = (Inr data, s)
          \<and> plugin now run w = (None, w')
          \<and> trace w' = trace w @ [Called ''before'', Called ''run'', Called ''after'']
              @ (if data \<noteq> PNone then [PutReturn data] else [])
              @ (if 0 < 1 / real_of_int (fps_cap w) - (now (Suc (ticks w)) - now (ticks w))
                 then [Slept (1 / real_of_int (fps_cap w)
                               - (now (Suc (ticks w)) - now (ticks w)))]
                 else [])
          \<and> items (return_queue w') =
              items (return_queue w) @ (if data \<noteq> PNone then [data] else [])"
    by blast
qed

theorem main_loop_before_run_after_witness:
  "fps_cap worker0 \<noteq> 0 \<and> (\<forall>s. \<exists>data s'. run0 s = (Inr data, s'))
   \<and> (\<exists>w'. main_loop (\<lambda>k. real k / 100) run0 2 worker0 = (Running, w')
         \<and> called (trace w') = [''before'', ''run'', ''after'', ''before'', ''run'', ''after''])
   \<and> (\<exists>w'. plugin (\<lambda>k. real k / 100) run0 worker0 = (None, w')
         \<and> trace w' = [Called ''before'', Called ''run'', Called ''after'',
                         PutReturn (PInt 0), Slept (7 / 300)]
         \<and> items (return_queue w') = [PInt 0])"
proof -
  have h1: "fps_cap worker0 \<noteq> 0" by (simp add: worker0_def)
  have h2: "\<forall>s. \<exists>data s'. run0 s = (Inr data, s')" by (simp add: run0_def)
  have k: "trace worker0 = []" "items (return_queue worker0) = []" "ticks worker0 = 0"
    "fps_cap worker0 = 30" "self_attrs worker0 = 0"
    by (simp_all add: worker0_def new_queue_def)
  from main_loop_before_run_after [OF h1 h2, of "\<lambda>k. real k / 100" 2]
  obtain wa wb data s where a: "main_loop (\<lambda>k. real k / 100) run0 2 worker0 = (Running, wa)"
      "called (trace wa) =
         called (trace worker0) @ concat (replicate 2 [''before'', ''run'', ''after''])"
    and b: "run0 (self_attrs worker0) = (Inr data, s)"
      "plugin (\<lambda>k. real k / 100) run0 worker0 = (None, wb)"
      "trace wb = trace worker0 @ [Called ''before'', Called ''run'', Called ''after'']
              @ (if data \<noteq> PNone then [PutReturn data] else [])
              @ (if 0 < 1 / real_of_int (fps_cap worker0)
                       - (real (Suc (ticks worker0)) / 100 - real (ticks worker0) / 100)
                 then [Slept (1 / real_of_int (fps_cap worker0)
                               - (real (Suc (ticks worker0)) / 100 - real (ticks worker0) / 100))]
                 else [])"
      "items (return_queue wb) =
              items (return_queue worker0) @ (if data \<noteq> PNone then [data] else [])"
    by blast
  from b(1) have d: "data = PInt 0" by (simp add: run0_def k)
  have "called (trace wa) = [''before'', ''run'', ''after'', ''before'', ''run'', ''after'']"
    using a(2) by (simp add: k numeral_2_eq_2)
  moreover have "trace wb = [Called ''before'', Called ''run'', Called ''after'',
                         PutReturn (PInt 0), Slept (7 / 300)]"
    using b(3) by (simp add: k d)
  moreover have "items (return_queue wb) = [PInt 0]"
    using b(4) by (simp add: k d)
  ultimately show ?thesis using h1 h2 a(1) b(2) by blast
qed

subsection \<open>The dialog calls\<close>

lemma subscript_not_Empty: "subscript v k \<noteq> Inl Empty"
  by (cases v) (auto split: option.split)

text \<open>
  C7. \<open>notify\<close>, \<open>ask\<close> and \<open>dialog\<close> (the last when the dialog's \<open>build()\<close> returns)
  each put exactly one message on the immediate queue and then call \<open>get\<close> on the
  immediate return queue with no timeout: the call is left waiting exactly when no reply
  is on that queue, it never ends with the \<open>Empty\<close> of a timeout, and when a reply is
  there the call ends with it (\<open>ask\<close> with its \<open>response\<close> entry).
\<close>

theorem dialog_calls_wait_for_reply:
  assumes "build dlg = Inr built"
  shows "items (immediate_queue (snd (notify text type w))) =
           items (immediate_queue w)
             @ [PDict [(''operation'', PStr ''notify''),
                       (''options'', PDict [(''text'', text), (''type'', type)])]]
     \<and> items (immediate_queue (snd (ask text options description w))) =
           items (immediate_queue w)
             @ [PDict [(''operation'', PStr ''ask''),
                       (''options'', PDict [(''text'', text), (''description'', description),
                                            (''options'', options)])]]
     \<and> items (immediate_queue (snd (dialog build dlg w))) =
           items (immediate_queue w)
             @ [PDict [(''operation'', PStr ''dialog''), (''options'', built)]]
     \<and> (fst (notify text type w) = Block) = (items (immediate_return_queue w) = [])
     \<and> (fst (ask text options description w) = Block) = (items (immediate_return_queue w) = [])
     \<and> (fst (dialog build dlg w) = Block) = (items (immediate_return_queue w) = [])
     \<and> fst (notify text type w) \<noteq> Raise Empty
     \<and> fst (ask text options description w) \<noteq> Raise Empty
     \<and> fst (dialog build dlg w) \<noteq> Raise Empty
     \<and> (\<forall>reply rest. items (immediate_return_queue w) = reply # rest \<longrightarrow>
           fst (dialog build dlg w) = Return reply
         \<and> fst (ask text options description w) =
             (case subscript reply ''response'' of Inl e \<Rightarrow> Raise e | Inr r \<Rightarrow> Return r)
         \<and> (queue_ok (immediate_return_queue w) \<longrightarrow> fst (notify text type w) = Return reply))"
proof -
  have n: "items (immediate_queue (snd (notify text type w))) =
           items (immediate_queue w)
             @ [PDict [(''operation'', PStr ''notify''),
                       (''options'', PDict [(''text'', text), (''type'', type)])]]"
    "(fst (notify text type w) = Block) = (items (immediate_return_queue w) = [])"
    "fst (notify text type w) \<noteq> Raise Empty"
    by (auto simp: notify_def get_def task_done_def put_def Let_def split: list.split)
  have a: "items (immediate_queue (snd (ask text options description w))) =
           items (immediate_queue w)
             @ [PDict [(''operation'', PStr ''ask''),
                       (''options'', PDict [(''text'', text), (''description'', description),
                                            (''options'', options)])]]"
    "(fst (ask text options description w) = Block) = (items (immediate_return_queue w) = [])"
    "fst (ask text options description w) \<noteq> Raise Empty"
    using subscript_not_Empty
    by (auto simp: ask_def get_def put_def Let_def split: list.split sum.split)
  have d: "items (immediate_queue (snd (dialog build dlg w))) =
           items (immediate_queue w)
             @ [PDict [(''operation'', PStr ''dialog''), (''options'', built)]]"
    "(fst (dialog build dlg w) = Block) = (items (immediate_return_queue w) = [])"
    "fst (dialog build dlg w) \<noteq> Raise Empty"
    using assms
    by (auto simp: dialog_def get_def put_def Let_def split: list.split)
  have r: "\<forall>reply rest. items (immediate_return_queue w) = reply # rest \<longrightarrow>
           fst (dialog build dlg w) = Return reply
         \<and> fst (ask text options description w) =
             (case subscript reply ''response'' of Inl e \<Rightarrow> Raise e | Inr r \<Rightarrow> Return r)
         \<and> (queue_ok (immediate_return_queue w) \<longrightarrow> fst (notify text type w) = Return reply)"
    using assms
    by (auto simp: dialog_def ask_def notify_def get_def put_def task_done_def queue_ok_def
        Let_def split: sum.split)
  from n a d r show ?thesis by blast
qed

theorem dialog_calls_wait_for_reply_witness:
  "build0 ''sure?'' = Inr (PStr ''sure?'')
   \<and> fst (notify (PStr ''hello'') (PStr ''info'') worker0) = Block
   \<and> fst (ask (PStr ''hello'') (PList []) (PStr []) worker0) = Block
   \<and> fst (dialog build0 ''sure?'' worker0) = Block
   \<and> items (immediate_queue (snd (dialog build0 ''sure?'' worker0))) =
        [PDict [(''operation'', PStr ''dialog''), (''options'', PStr ''sure?'')]]
   \<and> items (immediate_return_queue worker2) = [PDict [(''response'', PStr ''yes'')]]
   \<and> queue_ok (immediate_return_queue worker2)
   \<and> fst (ask (PStr ''hello'') (PList []) (PStr []) worker2) = Return (PStr ''yes'')
   \<and> fst (notify (PStr ''hello'') (PStr ''info'') worker2)
        = Return (PDict [(''response'', PStr ''yes'')])
   \<and> fst (dialog build0 ''sure?'' worker2) = Return (PDict [(''response'', PStr ''yes'')])"
proof -
  have h: "build0 ''sure?'' = Inr (PStr ''sure?'')" by (simp add: build0_def)
  have k: "items (immediate_return_queue worker0) = []" "items (immediate_queue worker0) = []"
    "items (immediate_return_queue worker2) = [PDict [(''response'', PStr ''yes'')]]"
    "queue_ok (immediate_return_queue worker2)"
    by (simp_all add: worker2_def worker0_def new_queue_def queue_ok_def)
  from dialog_calls_wait_for_reply [of build0 "''sure?''" "PStr ''sure?''" "PStr ''hello''"
      "PStr ''info''" worker0 "PList []" "PStr []", OF h]
    dialog_calls_wait_for_reply [of build0 "''sure?''" "PStr ''sure?''" "PStr ''hello''"
      "PStr ''info''" worker2 "PList []" "PStr []", OF h]
  show ?thesis using h k by simp
qed

subsection \<open>The constructor\<close>

text \<open>
  C1, as amended. The constructor wires a request queue and a matching return queue for
  the settings menu, the frontend calls, the immediate dialogs and the performance
  concern, each the queue it was given for that place. Return values and state have one
  queue each, \<open>return_queue\<close> and \<open>state_queue\<close>, and no matching second queue.
\<close>

theorem constructor_wires_queues:
  "has_queue_pair
     (fst (new author files path rq pq prq tq trq smq smrq fq frq iq irq sq pfq pfrq)) c
     = (c \<noteq> ReturnValues \<and> c \<noteq> StateUpdates)
   \<and> map (forward_queue
        (fst (new author files path rq pq prq tq trq smq smrq fq frq iq irq sq pfq pfrq)))
        [ReturnValues, SettingsMenu, FrontendCalls, ImmediateDialogs, StateUpdates, Performance]
     = [Some rq, Some smq, Some fq, Some iq, Some sq, Some pfq]
   \<and> map (matching_return_queue
        (fst (new author files path rq pq prq tq trq smq smrq fq frq iq irq sq pfq pfrq)))
        [ReturnValues, SettingsMenu, FrontendCalls, ImmediateDialogs, StateUpdates, Performance]
     = [None, Some smrq, Some frq, Some irq, None, Some pfrq]"
  by (cases c)
     (simp_all add: has_queue_pair_def forward_queue_def matching_return_queue_def
        queue_attr_def new_def)

theorem state_and_return_values_unpaired_counterexample:
  "\<not> has_queue_pair
        (fst (new (One ''author'') Map.empty ''plugins/Map'' (0::nat) 1 2 3 4 5 6 7 8 9 10 11 12 13))
        StateUpdates
   \<and> \<not> has_queue_pair
        (fst (new (One ''author'') Map.empty ''plugins/Map'' (0::nat) 1 2 3 4 5 6 7 8 9 10 11 12 13))
        ReturnValues"
  by (simp add: has_queue_pair_def forward_queue_def matching_return_queue_def
        queue_attr_def new_def)

subsection \<open>Map data extraction\<close>

lemma py_eq_PStr: "py_eq a (PStr s) = (a = PStr s)"
  by (cases a) (auto simp: py_eq_def)

lemma extractall_other:
  "\<not> inside path p \<Longrightarrow> extractall path entries fs p = fs p"
proof (induction entries arbitrary: fs)
  case Nil
  then show ?case by simp
next
  case (Cons e entries)
  obtain name content where e: "e = (name, content)" by (cases e)
  have "p \<noteq> path @ ''/'' @ name"
    using Cons.prems by (auto simp: inside_def)
  then show ?case using Cons by (simp add: e)
qed

lemma extractall_self: "extractall path entries fs path = fs path"
proof (induction entries arbitrary: fs)
  case Nil
  then show ?case by simp
next
  case (Cons e entries)
  obtain name content where e: "e = (name, content)" by (cases e)
  have "extractall path (e # entries) fs path
        = extractall path entries (fs(path @ ''/'' @ name \<mapsto> File content)) path"
    by (simp only: e extractall.simps)
  also have "\<dots> = (fs(path @ ''/'' @ name \<mapsto> File content)) path"
    by (rule Cons.IH)
  also have "\<dots> = fs path" by simp
  finally show ?case .
qed

lemma ExtractData_succeeds:
  assumes "fs DATA_FILENAME = Some (File bytes)"
    and "unzip bytes = Inr entries"
    and "\<not> inside path DATA_FILENAME"
    and "\<forall>c. fs path \<noteq> Some (File c)"
  shows "\<exists>fs'. ExtractData unzip path fs = (None, fs')
     \<and> fs' DATA_FILENAME = Some (File bytes)
     \<and> fs' path = Some Dir
     \<and> fs' = extractall path entries
               ((if fs path = None then fs else (\<lambda>p. if inside path p then None else fs p))
                  (path \<mapsto> Dir))"
proof -
  have p: "path \<noteq> DATA_FILENAME" using assms(3) by (auto simp: inside_def)
  have q: "inside path path" by (simp add: inside_def)
  have pp: "\<And>g. extractall path entries (g(path \<mapsto> Dir)) path = Some Dir"
    by (simp add: extractall_self)
  show ?thesis
  proof (cases "fs path")
    case None
    then show ?thesis
      using assms p pp by (simp add: ExtractData_def Let_def extractall_other)
  next
    case (Some n)
    then have n: "fs path = Some Dir" using assms(4) by (cases n) auto
    show ?thesis
      using assms n p pp
      by (simp add: ExtractData_def rmtree_def Let_def extractall_other q)
  qed
qed


text \<open>
  C9. When the archive can be read and unpacked (it is a regular file and a zip archive,
  it does not lie in the directory to extract into, and that directory's path is not a
  regular file), \<open>UpdateData\<close> returns \<open>True\<close> iff the stored hash is \<open>None\<close> or
  differs from the MD5 of the archive, and then it has extracted the archive and written
  the hash to the settings once; it returns \<open>False\<close> with nothing changed otherwise.
  After the call the stored hash is the archive's MD5, and the call repeated at once
  returns \<open>False\<close> and changes nothing: no extraction, no settings write.
\<close>

theorem UpdateData_idempotent:
  assumes "filesystem st DATA_FILENAME = Some (File bytes)"
    and "unzip bytes = Inr entries"
    and "\<not> inside path DATA_FILENAME"
    and "\<forall>c. filesystem st path \<noteq> Some (File c)"
  shows "fst (UpdateData md5 unzip path st)
           = Inr (DATA_HASH st = PNone \<or> DATA_HASH st \<noteq> PStr (md5 bytes))
     \<and> DATA_HASH (snd (UpdateData md5 unzip path st)) = PStr (md5 bytes)
     \<and> (fst (UpdateData md5 unzip path st) = Inr True \<longrightarrow>
          filesystem (snd (UpdateData md5 unzip path st)) =
            extractall path entries
              ((if filesystem st path = None then filesystem st
                else (\<lambda>p. if inside path p then None else filesystem st p))(path \<mapsto> Dir))
          \<and> settings_writes (snd (UpdateData md5 unzip path st)) =
              settings_writes st @ [(''Map'', ''data_hash'', PStr (md5 bytes))])
     \<and> (fst (UpdateData md5 unzip path st) = Inr False \<longrightarrow>
          snd (UpdateData md5 unzip path st) = st)
     \<and> UpdateData md5 unzip path (snd (UpdateData md5 unzip path st))
          = (Inr False, snd (UpdateData md5 unzip path st))"
proof -
  from ExtractData_succeeds [of "filesystem st" bytes unzip entries path, OF assms]
  obtain fs' where x: "ExtractData unzip path (filesystem st) = (None, fs')"
    and z: "fs' DATA_FILENAME = Some (File bytes)"
    and f: "fs' = extractall path entries
               ((if filesystem st path = None then filesystem st
                 else (\<lambda>p. if inside path p then None else filesystem st p))(path \<mapsto> Dir))"
    by blast
  show ?thesis
  proof (cases "DATA_HASH st = PNone \<or> DATA_HASH st \<noteq> PStr (md5 bytes)")
    case True
    then have r: "UpdateData md5 unzip path st =
        (Inr True,
         st\<lparr>warnings := warnings st @
               (if DATA_HASH st = PNone then [''map.extracting_data'', ''(No Hash)'']
                else [''map.extracting_data'']),
            DATA_HASH := PStr (md5 bytes),
            settings_writes := settings_writes st @ [(''Map'', ''data_hash'', PStr (md5 bytes))],
            filesystem := fs'\<rparr>)"
      using assms(1) x by (auto simp: UpdateData_def Let_def py_eq_PStr)
    have "UpdateData md5 unzip path (snd (UpdateData md5 unzip path st))
          = (Inr False, snd (UpdateData md5 unzip path st))"
      unfolding r using z by (simp add: UpdateData_def Let_def py_eq_PStr)
    then show ?thesis using True f by (simp add: r)
  next
    case False
    then have r: "UpdateData md5 unzip path st = (Inr False, st)"
      using assms(1) by (auto simp: UpdateData_def Let_def py_eq_PStr)
    then show ?thesis using False by simp
  qed
qed

theorem UpdateData_idempotent_witness:
  "filesystem map_data0 DATA_FILENAME = Some (File ''PK'')
   \<and> unzip0 ''PK'' = Inr [(''roads.json'', ''PK'')]
   \<and> \<not> inside ''plugins/Map/data'' DATA_FILENAME
   \<and> (\<forall>c. filesystem map_data0 ''plugins/Map/data'' \<noteq> Some (File c))
   \<and> fst (UpdateData md5_0 unzip0 ''plugins/Map/data'' map_data0) = Inr True
   \<and> DATA_HASH (snd (UpdateData md5_0 unzip0 ''plugins/Map/data'' map_data0)) = PStr ''md5:PK''
   \<and> filesystem (snd (UpdateData md5_0 unzip0 ''plugins/Map/data'' map_data0))
        ''plugins/Map/data/roads.json'' = Some (File ''PK'')
   \<and> UpdateData md5_0 unzip0 ''plugins/Map/data''
        (snd (UpdateData md5_0 unzip0 ''plugins/Map/data'' map_data0))
        = (Inr False, snd (UpdateData md5_0 unzip0 ''plugins/Map/data'' map_data0))"
proof -
  have h1: "filesystem map_data0 DATA_FILENAME = Some (File ''PK'')"
    by (simp add: map_data0_def)
  have h2: "unzip0 ''PK'' = Inr [(''roads.json'', ''PK'')]"
    by (simp add: unzip0_def)
  have h3: "\<not> inside ''plugins/Map/data'' DATA_FILENAME"
    by (simp add: inside_def DATA_FILENAME_def)
  have h4: "\<forall>c. filesystem map_data0 ''plugins/Map/data'' \<noteq> Some (File c)"
    by (simp add: map_data0_def DATA_FILENAME_def)
  have k: "DATA_HASH map_data0 = PNone" "filesystem map_data0 ''plugins/Map/data'' = None"
    by (simp_all add: map_data0_def DATA_FILENAME_def)
  from UpdateData_idempotent [of map_data0 "''PK''" unzip0 "[(''roads.json'', ''PK'')]"
      "''plugins/Map/data''" md5_0, OF h1 h2 h3 h4]
  show ?thesis using h1 h2 h3 h4 k by (simp add: md5_0_def)
qed

subsection \<open>The web server\<close>

text \<open>
  C4. For every plugin name, settings key and function name that is a path segment (not
  empty, no \<open>/\<close>), the API routes a request to enable or disable the plugin, to get one
  setting or all of them, to set one setting or a setting under several keys, and to call
  the named function of the plugin to the handler that makes the matching backend call
  with these names; and \<open>/api/quit\<close> and \<open>/api/restart\<close> set \<open>CLOSE\<close> and
  \<open>RESTART\<close> and answer \<open>{"status": "ok"}\<close>.
\<close>

theorem http_api_endpoints:
  assumes "is_segment p" and "is_segment k" and "is_segment f"
  shows "serve backend GET [''api'', ''plugins'', p, ''enable''] body st
           = Some (respond backend (AddPluginRunner p) st)
     \<and> serve backend GET [''api'', ''plugins'', p, ''disable''] body st
           = Some (respond backend (RemovePluginRunner p) st)
     \<and> serve backend GET [''api'', ''plugins'', p, ''settings'', k] body st
           = Some (respond backend (settings_Get p k) st)
     \<and> serve backend GET [''api'', ''plugins'', p, ''settings''] body st
           = Some (respond backend (settings_GetJSON p) (st\<lparr>printed := printed st @ [p]\<rparr>))
     \<and> serve backend POST [''api'', ''plugins'', p, ''settings'', k, ''set'']
           (Some (PDict [(''value'', v)])) st
           = Some (respond backend (settings_Set p (PStr k) v) st)
     \<and> serve backend POST [''api'', ''plugins'', p, ''settings'', ''set'']
           (Some (PDict [(''keys'', ks), (''setting'', v)])) st
           = Some (respond backend (settings_Set p ks v) st)
     \<and> serve backend POST [''api'', ''plugins'', p, ''call'', f] body st
           = Some (call_plugin_function backend p f body st)
     \<and> serve backend GET [''api'', ''quit''] body st
           = Some (Ok (PDict [(''status'', PStr ''ok'')]), st\<lparr>CLOSE := True\<rparr>)
     \<and> serve backend GET [''api'', ''restart''] body st
           = Some (Ok (PDict [(''status'', PStr ''ok'')]), st\<lparr>RESTART := True\<rparr>)"
proof -
  have s: "p \<noteq> []" "CHR ''/'' \<notin> set p" "k \<noteq> []" "CHR ''/'' \<notin> set k"
    "f \<noteq> []" "CHR ''/'' \<notin> set f"
    using assms by (simp_all add: is_segment_def)
  have 1: "serve backend GET [''api'', ''plugins'', p, ''enable''] body st
           = Some (respond backend (AddPluginRunner p) st)"
    using s by (simp add: serve_def route_def routes_def param_def enable_plugin_def)
  have 2: "serve backend GET [''api'', ''plugins'', p, ''disable''] body st
           = Some (respond backend (RemovePluginRunner p) st)"
    using s by (simp add: serve_def route_def routes_def param_def disable_plugin_def)
  have 3: "serve backend GET [''api'', ''plugins'', p, ''settings'', k] body st
           = Some (respond backend (settings_Get p k) st)"
    using s by (simp add: serve_def route_def routes_def param_def get_plugin_setting_def)
  have 4: "serve backend GET [''api'', ''plugins'', p, ''settings''] body st
           = Some (respond backend (settings_GetJSON p) (st\<lparr>printed := printed st @ [p]\<rparr>))"
    using s by (simp add: serve_def route_def routes_def param_def get_plugin_settings_def)
  have 5: "serve backend POST [''api'', ''plugins'', p, ''settings'', k, ''set'']
           (Some (PDict [(''value'', v)])) st
           = Some (respond backend (settings_Set p (PStr k) v) st)"
    using s by (simp add: serve_def route_def routes_def param_def set_plugin_setting_def)
  have 6: "serve backend POST [''api'', ''plugins'', p, ''settings'', ''set'']
           (Some (PDict [(''keys'', ks), (''setting'', v)])) st
           = Some (respond backend (settings_Set p ks v) st)"
    using s by (simp add: serve_def route_def routes_def param_def set_plugin_settings_def)
  have 7: "serve backend POST [''api'', ''plugins'', p, ''call'', f] body st
           = Some (call_plugin_function backend p f body st)"
    using s by (simp add: serve_def route_def routes_def param_def)
  have 8: "serve backend GET [''api'', ''quit''] body st
           = Some (Ok (PDict [(''status'', PStr ''ok'')]), st\<lparr>CLOSE := True\<rparr>)"
    by (simp add: serve_def route_def routes_def quitApp_def)
  have 9: "serve backend GET [''api'', ''restart''] body st
           = Some (Ok (PDict [(''status'', PStr ''ok'')]), st\<lparr>RESTART := True\<rparr>)"
    by (simp add: serve_def route_def routes_def restartApp_def)
  from 1 2 3 4 5 6 7 8 9 show ?thesis by blast
qed

theorem http_api_endpoints_witness:
  "is_segment ''Map'' \<and> is_segment ''data_hash'' \<and> is_segment ''reload''
   \<and> serve backend0 GET [''api'', ''plugins'', ''Map'', ''enable''] None server0
        = Some (Ok (PInt 1), server0\<lparr>backend_state := 1\<rparr>)
   \<and> serve backend0 GET [''api'', ''plugins'', ''Map'', ''settings'', ''data_hash''] None server0
        = Some (Ok (PInt 1), server0\<lparr>backend_state := 1\<rparr>)
   \<and> serve backend0 POST [''api'', ''plugins'', ''Map'', ''call'', ''reload'']
        (Some (PDict [(''args'', PList []), (''kwargs'', PDict [])])) server0
        = Some (Ok (PInt 1), server0\<lparr>backend_state := 1\<rparr>)
   \<and> serve backend0 GET [''api'', ''quit''] None server0
        = Some (Ok (PDict [(''status'', PStr ''ok'')]), server0\<lparr>CLOSE := True\<rparr>)"
proof -
  have h: "is_segment ''Map''" "is_segment ''data_hash''" "is_segment ''reload''"
    by (simp_all add: is_segment_def)
  from http_api_endpoints [OF h, of backend0 None server0]
    http_api_endpoints [OF h, of backend0
      "Some (PDict [(''args'', PList []), (''kwargs'', PDict [])])" server0]
  show ?thesis using h
    by (simp add: respond_def backend0_def server0_def call_plugin_function_def py_eq_def)
qed

subsection \<open>The CruiseControl plugin\<close>






































end
